theory Spec2Isabelle
  imports Complex_Main
begin

section \<open>Data model (types/api.ts, types/index.ts)\<close>

text \<open>
  A JavaScript number that the code only reads, compares or shows is the real number it
  denotes; \<open>undefined\<close>/\<open>null\<close> for an optional field is \<open>None\<close>. A
  \<open>Record<string, T>\<close> is the list of its entries in the order \<open>Object.entries\<close>
  enumerates them.
\<close>

text \<open>
  The keys of \<open>QuestionnaireAnswers\<close>. The object the pages build and submit is a
  \<open>Partial<QuestionnaireAnswers>\<close> cast to the full type, so it is the map from the
  keys it holds to their values.
\<close>

datatype QuestionId = q1 | q2 | q3 | q3_1 | q4 | q5

type_synonym QuestionnaireAnswers = "QuestionId \<Rightarrow> string option"

text \<open>
  A number the code computes with is a double: a finite one (the real it denotes), NaN
  or an infinity. \<open>falsy\<close> is what \<open>||\<close> tests: 0 and NaN.
\<close>

datatype JsNumber = Finite real | NaN | PosInfinity | NegInfinity

definition falsy :: "JsNumber \<Rightarrow> bool" where
  "falsy n = (n = Finite 0 \<or> n = NaN)"

record ForecastDataPoint =
  datetime :: string
  predicted_usage :: JsNumber

record RiskDay =
  date :: string
  total_usage_kw :: real
  reasons :: "string list"
  severity :: string

record RiskReport =
  total_risk_days :: int
  risk_details :: "RiskDay list"
  summary :: string

record DayPlanAction =
  action :: string
  reason :: string

type_synonym PlanRecord = "(string \<times> DayPlanAction list) list"

record SevenDayPlan =
  summary :: string
  estimated_savings_percent :: real
  comfort_impact :: string
  daily_plan :: "PlanRecord option"
  seven_day_plan :: "PlanRecord option"  \<comment> \<open>the key \<open>"7_day_plan"\<close>\<close>

record UserProfile =
  occupancy_density :: string
  daytime_load_probability :: real
  hvac_usage :: string
  thermal_comfort_setpoint :: "string option"
  water_heating_source :: string
  appliance_load_tier :: string

record UsageBehavior =
  peak_hours :: "real list"
  peak_months :: "string list option"
  weekend_behavior :: "string option"
  weekend_increase_percent :: "real option"
  avg_hourly_kw :: "real option"

record SpikeProfile =
  spike_rate_percent :: "real option"
  spike_count :: "real option"
  avg_spike_kw :: "real option"
  max_spike_kw :: "real option"
  spike_peak_hours :: "real list option"
  weekend_spike_percent :: "real option"

record WeatherContext =
  avg_temp_c :: "real option"
  thermal_condition :: "string option"
  humidity_level :: "string option"
  wind_cooling_effect :: "string option"
  heat_stress_index :: "real option"
  temp_kwh_correlation :: "real option"
  temp_correlation :: "real option"
  weather_driver :: string

record ConsumptionInsights =
  usage_behavior :: UsageBehavior
  spike_profile :: SpikeProfile
  weather_context :: WeatherContext

record DailyBreakdown =
  highest_day :: "string option"
  lowest_day :: "string option"
  pattern_type :: "string option"

record ForecastAnalysis =
  forecast_summary :: string
  forecast_insights :: "string list"
  daily_breakdown :: "DailyBreakdown option"

record AnalysisResult =
  analysis_id :: string
  created_at :: string
  user_profile :: UserProfile
  consumption_insights :: ConsumptionInsights
  risk_report :: RiskReport
  forecast_analysis :: "ForecastAnalysis option"
  seven_day_energy_plan :: SevenDayPlan
  forecast_data :: "ForecastDataPoint list"

section \<open>DashboardPage: mapApiToPlan\<close>

record DayPlan =
  dayLabel :: string
  date :: string
  actions :: "DayPlanAction list"
  completed :: "bool option"
  skipped :: "bool option"

text \<open>
  The body of the \<open>forEach\<close> over \<open>Object.entries(dailyPlan)\<close>. The index counts every
  entry, also the skipped ones. \<open>isoDateAfter i\<close> stands for
  \<open>date.toISOString().split('T')[0]\<close> of today's \<open>Date\<close> moved by \<open>i\<close> days: the clock
  and the calendar are the platform's.
\<close>

fun planEntries :: "(nat \<Rightarrow> string) \<Rightarrow> nat \<Rightarrow> PlanRecord \<Rightarrow> DayPlan list" where
  "planEntries isoDateAfter index [] = []"
| "planEntries isoDateAfter index ((dayKey, acts) # rest) =
     (if length acts > 0
      then [\<lparr>dayLabel = dayKey, date = isoDateAfter index, actions = acts,
             completed = None, skipped = None\<rparr>]
      else [])
     @ planEntries isoDateAfter (Suc index) rest"

text \<open>
  \<open>seven_day_energy_plan["7_day_plan"] || seven_day_energy_plan.daily_plan\<close>: an object
  is truthy, also the empty one, so the first key wins whenever it is present.
\<close>

definition dailyPlan :: "SevenDayPlan \<Rightarrow> PlanRecord option" where
  "dailyPlan p =
     (case seven_day_plan p of Some m \<Rightarrow> Some m | None \<Rightarrow> daily_plan p)"

definition mapApiToPlan :: "(nat \<Rightarrow> string) \<Rightarrow> AnalysisResult \<Rightarrow> DayPlan list" where
  "mapApiToPlan isoDateAfter data =
     (case dailyPlan (seven_day_energy_plan data) of
        None \<Rightarrow> []
      | Some entries \<Rightarrow> planEntries isoDateAfter 0 entries)"

section \<open>DashboardPage: the data shown, the savings figure, the chat\<close>

definition mockUserProfile :: UserProfile where
  "mockUserProfile =
     \<lparr>occupancy_density = ''medium'', daytime_load_probability = 7 / 10,
      hvac_usage = ''moderate'', thermal_comfort_setpoint = Some ''22-24'',
      water_heating_source = ''electric geyser'', appliance_load_tier = ''moderate''\<rparr>"

definition mockConsumptionInsights :: ConsumptionInsights where
  "mockConsumptionInsights =
     \<lparr>usage_behavior =
        \<lparr>peak_hours = [18, 19, 20, 21, 22],
         peak_months = Some [''June'', ''July'', ''August''],
         weekend_behavior = Some ''higher'', weekend_increase_percent = Some 15,
         avg_hourly_kw = None\<rparr>,
      spike_profile =
        \<lparr>spike_rate_percent = Some (85 / 10), spike_count = None,
         avg_spike_kw = Some (32 / 10), max_spike_kw = None,
         spike_peak_hours = Some [19, 20, 21], weekend_spike_percent = Some 25\<rparr>,
      weather_context =
        \<lparr>avg_temp_c = Some (285 / 10), thermal_condition = Some ''warm'',
         humidity_level = Some ''moderate'', wind_cooling_effect = Some ''moderate'',
         heat_stress_index = Some 32, temp_kwh_correlation = Some (4 / 10),
         temp_correlation = None, weather_driver = ''weather-neutral''\<rparr>\<rparr>"

definition mockRiskReport :: RiskReport where
  "mockRiskReport =
     \<lparr>total_risk_days = 0, risk_details = [],
      RiskReport.summary = ''No high-risk days detected for the upcoming week.''\<rparr>"

record DashboardData =
  userProfile :: UserProfile
  consumptionInsights :: ConsumptionInsights
  riskReport :: RiskReport
  plan :: "DayPlan list"
  forecastData :: "ForecastDataPoint list"
  sevenDayPlan :: "SevenDayPlan option"
  forecastAnalysis :: "ForecastAnalysis option"

text \<open>
  The \<open>useMemo\<close> that extracts the data from the API result (\<open>analysisData\<close> is
  undefined until the query has an answer). \<open>analysisData.forecast_analysis || null\<close>
  turns a missing analysis into \<open>null\<close>.
\<close>

definition dashboardData :: "(nat \<Rightarrow> string) \<Rightarrow> AnalysisResult option \<Rightarrow> DashboardData" where
  "dashboardData isoDateAfter analysisData =
     (case analysisData of
        None \<Rightarrow>
          \<lparr>userProfile = mockUserProfile, consumptionInsights = mockConsumptionInsights,
           riskReport = mockRiskReport, plan = [], forecastData = [],
           sevenDayPlan = None, forecastAnalysis = None\<rparr>
      | Some d \<Rightarrow>
          \<lparr>userProfile = user_profile d, consumptionInsights = consumption_insights d,
           riskReport = risk_report d, plan = mapApiToPlan isoDateAfter d,
           forecastData = forecast_data d, sevenDayPlan = Some (seven_day_energy_plan d),
           forecastAnalysis =
             (case forecast_analysis d of Some a \<Rightarrow> Some a | None \<Rightarrow> None)\<rparr>)"

text \<open>
  \<open>sevenDayPlan?.estimated_savings_percent || 10\<close>: the number 0 is falsy, as the
  missing plan is.
\<close>

definition savingsPercent :: "SevenDayPlan option \<Rightarrow> real" where
  "savingsPercent p =
     (case p of
        None \<Rightarrow> 10
      | Some sp \<Rightarrow>
          if estimated_savings_percent sp = 0 then 10 else estimated_savings_percent sp)"

text \<open>
  The context handed to the chat (\<open>userProfile || null\<close> and so on: an object is
  truthy, a missing one becomes \<open>null\<close>).
\<close>

record AnalysisContext =
  userProfile :: "UserProfile option"
  consumptionInsights :: "ConsumptionInsights option"
  riskReport :: "RiskReport option"
  sevenDayPlan :: "SevenDayPlan option"
  forecastAnalysis :: "ForecastAnalysis option"

definition chatContext :: "DashboardData \<Rightarrow> AnalysisContext" where
  "chatContext dd =
     \<lparr>userProfile = Some (DashboardData.userProfile dd),
      consumptionInsights = Some (DashboardData.consumptionInsights dd),
      riskReport = Some (DashboardData.riskReport dd),
      sevenDayPlan =
        (case DashboardData.sevenDayPlan dd of Some p \<Rightarrow> Some p | None \<Rightarrow> None),
      forecastAnalysis =
        (case DashboardData.forecastAnalysis dd of Some a \<Rightarrow> Some a | None \<Rightarrow> None)\<rparr>"

text \<open>
  The cards of the overview tab, top to bottom, each with the properties it is given;
  the forecast analysis card is rendered under \<open>forecastAnalysis &&\<close>.
\<close>

datatype OverviewCard =
  ChartCard "ForecastDataPoint list" string
  | ForecastAnalysisCard ForecastAnalysis
  | ProfileCard UserProfile
  | ConsumptionInsightsCard ConsumptionInsights

definition overviewTab :: "DashboardData \<Rightarrow> OverviewCard list" where
  "overviewTab dd =
     [ChartCard (DashboardData.forecastData dd)
        (if length (DashboardData.forecastData dd) > 0 then ''7-Day Energy Forecast''
         else ''Daily Energy Consumption (Demo)'')]
     @ (case DashboardData.forecastAnalysis dd of
          Some a \<Rightarrow> [ForecastAnalysisCard a]
        | None \<Rightarrow> [])
     @ [ProfileCard (DashboardData.userProfile dd),
        ConsumptionInsightsCard (DashboardData.consumptionInsights dd)]"

datatype ChatRole = user | assistant

record ChatMessage =
  msg_id :: string
  role :: ChatRole
  content :: string
  timestamp :: nat

datatype GroqRole = role_system | role_user | role_assistant

record GroqChatMessage =
  role :: GroqRole
  content :: string

record ChatState =
  chatMessages :: "ChatMessage list"
  isTyping :: bool
  conversationHistory :: "GroqChatMessage list"

text \<open>\<open>Number.prototype.toString\<close> on a natural number: its decimal digits.\<close>

fun toStringNat :: "nat \<Rightarrow> string" where
  "toStringNat n =
     (if n < 10 then [''0123456789'' ! n]
      else toStringNat (n div 10) @ [''0123456789'' ! (n mod 10)])"

declare toStringNat.simps [simp del]

text \<open>
  What the awaited \<open>sendChatMessage\<close> does: it resolves with the reply, or rejects with
  an error whose \<open>message\<close> may be missing.
\<close>

datatype SendOutcome = Resolved string | Rejected "string option"

text \<open>The four clock readings of one send: \<open>Date.now()\<close> and \<open>new Date()\<close>, twice.\<close>

record ClockReads =
  idNow1 :: nat
  date1 :: nat
  idNow2 :: nat
  date2 :: nat

text \<open>
  One run of \<open>handleSendMessage\<close> from the click to the \<open>finally\<close>, the state updates
  applied in the order the handler issues them (each is a functional update of the
  previous state).
\<close>

definition handleSendMessage ::
  "ClockReads \<Rightarrow> SendOutcome \<Rightarrow> string \<Rightarrow> ChatState \<Rightarrow> ChatState" where
  "handleSendMessage clk outcome message st =
     (let userMessage =
            \<lparr>msg_id = toStringNat (idNow1 clk), ChatMessage.role = user,
             ChatMessage.content = message, timestamp = date1 clk\<rparr>;
          st1 = st\<lparr>chatMessages := chatMessages st @ [userMessage], isTyping := True\<rparr>;
          st2 =
            (case outcome of
               Resolved aiResponseContent \<Rightarrow>
                 (let aiResponse =
                        \<lparr>msg_id = toStringNat (idNow2 clk + 1), ChatMessage.role = assistant,
                         ChatMessage.content = aiResponseContent, timestamp = date2 clk\<rparr>
                  in st1\<lparr>conversationHistory :=
                           conversationHistory st1 @
                             [\<lparr>role = role_user, content = message\<rparr>,
                              \<lparr>role = role_assistant, content = aiResponseContent\<rparr>],
                         chatMessages := chatMessages st1 @ [aiResponse]\<rparr>)
             | Rejected errMessage \<Rightarrow>
                 (let shown =
                        (case errMessage of
                           None \<Rightarrow> ''Unable to connect to AI service''
                         | Some m \<Rightarrow> if m = [] then ''Unable to connect to AI service'' else m);
                      errorResponse =
                        \<lparr>msg_id = toStringNat (idNow2 clk + 1), ChatMessage.role = assistant,
                         ChatMessage.content =
                           ''Sorry, I encountered an error: '' @ shown @ ''. Please try again.'',
                         timestamp = date2 clk\<rparr>
                  in st1\<lparr>chatMessages := chatMessages st1 @ [errorResponse]\<rparr>))
      in st2\<lparr>isTyping := False\<rparr>)"

section \<open>RiskReportCard\<close>

text \<open>
  \<open>String.prototype.toLowerCase\<close> on the letters A to Z; every other character is left
  as it is (no string with a character outside A to Z lower-cases to \<open>high\<close> or to
  \<open>medium\<close>, so the comparisons below come out as with the platform's function).
\<close>

definition lowerChar :: "char \<Rightarrow> char" where
  "lowerChar c =
     (case map_of (zip ''ABCDEFGHIJKLMNOPQRSTUVWXYZ'' ''abcdefghijklmnopqrstuvwxyz'') c of
        Some l \<Rightarrow> l
      | None \<Rightarrow> c)"

definition toLowerCase :: "string \<Rightarrow> string" where
  "toLowerCase s = map lowerChar s"

record SeverityStyles =
  bg :: string
  text' :: string
  border :: string

definition getSeverityStyles :: "string \<Rightarrow> SeverityStyles" where
  "getSeverityStyles sev =
     (let lower = toLowerCase sev in
      if lower = ''high''
      then \<lparr>bg = ''bg-destructive/10'', text' = ''text-destructive'',
            border = ''border-destructive/30''\<rparr>
      else if lower = ''medium''
      then \<lparr>bg = ''bg-warning/10'', text' = ''text-warning'', border = ''border-warning/30''\<rparr>
      else \<lparr>bg = ''bg-insight/10'', text' = ''text-insight'', border = ''border-insight/30''\<rparr>)"

record RiskDayView =
  key :: "string + nat"
  styles :: SeverityStyles
  dateLabel :: string
  reasonLines :: "string list"
  usageLabel :: string
  severityLabel :: string

record RiskReportView =
  badgeClass :: string
  badgeDays :: int
  summaryText :: string
  details :: "RiskDayView list option"
  noRiskBanner :: bool

text \<open>
  The platform's formatting functions the card calls: \<open>toLocaleDateString\<close> of
  \<open>new Date(day.date)\<close> and \<open>toFixed(1)\<close>.
\<close>

record Formatting =
  toLocaleDateString :: "string \<Rightarrow> string"
  toFixed1 :: "real \<Rightarrow> string"

text \<open>One element of \<open>risk_details.map((day, index) => ...)\<close>; the key is \<open>day.date || index\<close>.\<close>

definition riskDayView :: "Formatting \<Rightarrow> nat \<Rightarrow> RiskDay \<Rightarrow> RiskDayView" where
  "riskDayView fmt index day =
     \<lparr>key = (if RiskDay.date day = [] then Inr index else Inl (RiskDay.date day)),
      styles = getSeverityStyles (severity day),
      dateLabel = toLocaleDateString fmt (RiskDay.date day),
      reasonLines = reasons day,
      usageLabel = toFixed1 fmt (total_usage_kw day),
      severityLabel = severity day\<rparr>"

fun mapIndexed :: "(nat \<Rightarrow> 'a \<Rightarrow> 'b) \<Rightarrow> nat \<Rightarrow> 'a list \<Rightarrow> 'b list" where
  "mapIndexed f index [] = []"
| "mapIndexed f index (x # xs) = f index x # mapIndexed f (Suc index) xs"

definition RiskReportCard :: "Formatting \<Rightarrow> RiskReport \<Rightarrow> RiskReportView" where
  "RiskReportCard fmt rr =
     \<lparr>badgeClass =
        (if total_risk_days rr > 0 then ''bg-warning/10 text-warning''
         else ''bg-savings/10 text-savings''),
      badgeDays = total_risk_days rr,
      summaryText = RiskReport.summary rr,
      details =
        (if length (risk_details rr) > 0
         then Some (mapIndexed (riskDayView fmt) 0 (risk_details rr))
         else None),
      noRiskBanner = (total_risk_days rr = 0)\<rparr>"

section \<open>mockData: getDailyConsumption, and ChartCard's hourlyData and dailyData\<close>

record ConsumptionData =
  date :: string
  hour :: "real option"
  kWh :: JsNumber
  isPeak :: "bool option"

text \<open>
  A JavaScript \<open>Map\<close> as the list of its entries in insertion order: \<open>get\<close> reads the
  entry of a key, \<open>set\<close> overwrites it in place or appends a new one.
\<close>

definition mapGet :: "('k \<times> 'v) list \<Rightarrow> 'k \<Rightarrow> 'v option" where
  "mapGet m k = map_of m k"

fun mapSet :: "('k \<times> 'v) list \<Rightarrow> 'k \<Rightarrow> 'v \<Rightarrow> ('k \<times> 'v) list" where
  "mapSet [] k v = [(k, v)]"
| "mapSet ((k', v') # m) k v =
     (if k' = k then (k, v) # m else (k', v') # mapSet m k v)"

text \<open>
  The platform's double arithmetic that the aggregation calls: \<open>a + b\<close>, which rounds
  the sum to a double, and \<open>parseFloat(x.toFixed(2))\<close>. The code's results are these
  functions' results, whatever they round to.
\<close>

record Float64 =
  plus64 :: "JsNumber \<Rightarrow> JsNumber \<Rightarrow> JsNumber"
  parseFloat_toFixed2 :: "JsNumber \<Rightarrow> JsNumber"

text \<open>The \<open>forEach\<close> body: \<open>dailyMap.get(item.date) || 0\<close>, then \<open>set\<close>.\<close>

definition addConsumption ::
  "Float64 \<Rightarrow> (string \<times> JsNumber) list \<Rightarrow> ConsumptionData \<Rightarrow> (string \<times> JsNumber) list" where
  "addConsumption ops dailyMap item =
     (let current =
            (case mapGet dailyMap (ConsumptionData.date item) of
               None \<Rightarrow> Finite 0
             | Some c \<Rightarrow> if falsy c then Finite 0 else c)
      in mapSet dailyMap (ConsumptionData.date item)
           (plus64 ops current (ConsumptionData.kWh item)))"

definition getDailyConsumption :: "Float64 \<Rightarrow> ConsumptionData list \<Rightarrow> ConsumptionData list" where
  "getDailyConsumption ops data =
     map (\<lambda>(d, k). \<lparr>ConsumptionData.date = d, hour = None,
                     kWh = parseFloat_toFixed2 ops k, isPeak = None\<rparr>)
       (foldl (addConsumption ops) [] data)"

record ChartPoint =
  index :: "nat option"
  date :: string
  dayName :: string
  fullDate :: "string option"
  kWh :: JsNumber
  datetime :: "string option"
  isMidnight :: "bool option"

text \<open>
  What the chart reads off \<open>new Date(s)\<close>: the month-and-day label
  (\<open>toLocaleDateString\<close> with a short month and a numeric day, no year), the short
  weekday name, the label with the hour, and \<open>getHours()\<close>.
\<close>

record DateLabels =
  monthDay :: "string \<Rightarrow> string"
  weekdayShort :: "string \<Rightarrow> string"
  monthDayHour :: "string \<Rightarrow> string"
  getHours :: "string \<Rightarrow> nat"

text \<open>
  \<open>hourlyData\<close>: the forecast points as they are when there are any; otherwise the last
  14 days of \<open>getDailyConsumption\<close> of the \<open>data\<close> property, or of what
  \<open>generateMockConsumptionData\<close> returns (random values: \<open>mock\<close>) when \<open>data\<close> is
  missing.
\<close>

definition forecastPoint :: "DateLabels \<Rightarrow> nat \<Rightarrow> ForecastDataPoint \<Rightarrow> ChartPoint" where
  "forecastPoint lbl i item =
     \<lparr>index = Some i, ChartPoint.date = monthDay lbl (ForecastDataPoint.datetime item),
      dayName = weekdayShort lbl (ForecastDataPoint.datetime item),
      fullDate = Some (monthDayHour lbl (ForecastDataPoint.datetime item)),
      ChartPoint.kWh = predicted_usage item,
      ChartPoint.datetime = Some (ForecastDataPoint.datetime item),
      isMidnight = Some (getHours lbl (ForecastDataPoint.datetime item) = 0)\<rparr>"

definition consumptionPoint :: "DateLabels \<Rightarrow> nat \<Rightarrow> ConsumptionData \<Rightarrow> ChartPoint" where
  "consumptionPoint lbl i item =
     \<lparr>index = Some i, ChartPoint.date = monthDay lbl (ConsumptionData.date item),
      dayName = weekdayShort lbl (ConsumptionData.date item),
      fullDate = Some (monthDay lbl (ConsumptionData.date item)),
      ChartPoint.kWh = ConsumptionData.kWh item,
      ChartPoint.datetime = Some (ConsumptionData.date item),
      isMidnight = Some True\<rparr>"

definition hourlyData ::
  "Float64 \<Rightarrow> DateLabels \<Rightarrow> ForecastDataPoint list option \<Rightarrow> ConsumptionData list option
   \<Rightarrow> ConsumptionData list \<Rightarrow> ChartPoint list" where
  "hourlyData ops lbl forecast data mock =
     (let dailyConsumption =
            getDailyConsumption ops (case data of Some d \<Rightarrow> d | None \<Rightarrow> mock);
          lastDays =
            mapIndexed (consumptionPoint lbl) 0
              (drop (length dailyConsumption - 14) dailyConsumption)
      in case forecast of
           None \<Rightarrow> lastDays
         | Some fd \<Rightarrow>
             if length fd > 0 then mapIndexed (forecastPoint lbl) 0 fd else lastDays)"

record DailyEntry =
  kWh :: JsNumber
  datetime :: string

definition addForecast ::
  "Float64 \<Rightarrow> DateLabels \<Rightarrow> (string \<times> DailyEntry) list \<Rightarrow> ForecastDataPoint
   \<Rightarrow> (string \<times> DailyEntry) list" where
  "addForecast ops lbl dailyMap item =
     (let dateKey = monthDay lbl (ForecastDataPoint.datetime item) in
      case mapGet dailyMap dateKey of
        Some current \<Rightarrow>
          mapSet dailyMap dateKey
            \<lparr>DailyEntry.kWh = plus64 ops (DailyEntry.kWh current) (predicted_usage item),
             DailyEntry.datetime = ForecastDataPoint.datetime item\<rparr>
      | None \<Rightarrow>
          mapSet dailyMap dateKey
            \<lparr>DailyEntry.kWh = predicted_usage item,
             DailyEntry.datetime = ForecastDataPoint.datetime item\<rparr>)"

text \<open>
  \<open>dailyData\<close>, with \<open>hourlyData\<close> the value of the memo above: without forecast points
  it falls back to \<open>hourlyData\<close>.
\<close>

definition dailyData ::
  "Float64 \<Rightarrow> DateLabels \<Rightarrow> ForecastDataPoint list option \<Rightarrow> ChartPoint list
   \<Rightarrow> ChartPoint list" where
  "dailyData ops lbl forecast hourly =
     (case forecast of
        None \<Rightarrow> hourly
      | Some fd \<Rightarrow>
          if length fd = 0 then hourly
          else map (\<lambda>(d, e). \<lparr>index = None, ChartPoint.date = d,
                               dayName = weekdayShort lbl (DailyEntry.datetime e),
                               fullDate = None,
                               ChartPoint.kWh = parseFloat_toFixed2 ops (DailyEntry.kWh e),
                               ChartPoint.datetime = None, isMidnight = None\<rparr>)
                 (foldl (addForecast ops lbl) [] fd))"

text \<open>The daily view of a chart card with the properties \<open>forecastData\<close> and \<open>data\<close>.\<close>

definition chartDailyData ::
  "Float64 \<Rightarrow> DateLabels \<Rightarrow> ForecastDataPoint list option \<Rightarrow> ConsumptionData list option
   \<Rightarrow> ConsumptionData list \<Rightarrow> ChartPoint list" where
  "chartDailyData ops lbl forecast data mock =
     dailyData ops lbl forecast (hourlyData ops lbl forecast data mock)"

subsection \<open>What the aggregation computes, in words of sums\<close>

text \<open>The keys of a \<open>Map\<close> filled from a list: each key once, in order of first occurrence.\<close>

definition addKey :: "'k list \<Rightarrow> 'k \<Rightarrow> 'k list" where
  "addKey ks k = (if k \<in> set ks then ks else ks @ [k])"

definition firstOccurrences :: "'k list \<Rightarrow> 'k list" where
  "firstOccurrences xs = foldl addKey [] xs"

text \<open>
  The sum of a day's rows as \<open>getDailyConsumption\<close> accumulates it: double additions from
  0, left to right, a falsy partial sum read as 0.
\<close>

definition runningSum :: "Float64 \<Rightarrow> JsNumber list \<Rightarrow> JsNumber" where
  "runningSum ops vs =
     foldl (\<lambda>acc v. plus64 ops (if falsy acc then Finite 0 else acc) v) (Finite 0) vs"

text \<open>
  The sum of a label's points as \<open>dailyData\<close> accumulates it: the first value, then double
  additions left to right.
\<close>

definition seriesSum :: "Float64 \<Rightarrow> JsNumber list \<Rightarrow> JsNumber" where
  "seriesSum ops vs = (case vs of [] \<Rightarrow> Finite 0 | v # rest \<Rightarrow> foldl (plus64 ops) v rest)"

text \<open>The total of a list of numbers as real numbers (a number that is not finite counts 0).\<close>

fun finiteValue :: "JsNumber \<Rightarrow> real" where
  "finiteValue (Finite r) = r"
| "finiteValue NaN = 0"
| "finiteValue PosInfinity = 0"
| "finiteValue NegInfinity = 0"

definition total :: "JsNumber list \<Rightarrow> real" where
  "total vs = sum_list (map finiteValue vs)"

section \<open>OnboardingPage: the questionnaire\<close>

text \<open>
  A question with the values of its options and its condition; titles, descriptions,
  labels and icons are presentation only.
\<close>

record Question =
  id' :: QuestionId
  options :: "string list"
  conditionalOn :: "(QuestionId \<times> string) option"

definition questions :: "Question list" where
  "questions =
     [\<lparr>id' = q1, options = [''1-2'', ''3-4'', ''5+''], conditionalOn = None\<rparr>,
      \<lparr>id' = q2, options = [''Mostly empty'', ''Partially occupied'', ''Mostly occupied''],
       conditionalOn = None\<rparr>,
      \<lparr>id' = q3, options = [''Yes'', ''No''], conditionalOn = None\<rparr>,
      \<lparr>id' = q3_1, options = [''18-20'', ''20-22'', ''22-24'', ''24-26''],
       conditionalOn = Some (q3, ''Yes'')\<rparr>,
      \<lparr>id' = q4, options = [''Electric geyser'', ''Gas geyser'', ''Solar'', ''None''],
       conditionalOn = None\<rparr>,
      \<lparr>id' = q5, options = [''0-1'', ''2-3'', ''4+''], conditionalOn = None\<rparr>]"

definition visibleQuestions :: "QuestionnaireAnswers \<Rightarrow> Question list" where
  "visibleQuestions answers =
     filter (\<lambda>q. case conditionalOn q of
                    None \<Rightarrow> True
                  | Some (field, v) \<Rightarrow> answers field = Some v)
       questions"

datatype Step = step_upload | step_questions

record OnboardingState =
  step :: Step
  selectedFile :: "string option"
  currentQuestion :: nat
  answers :: QuestionnaireAnswers
  submitted :: "QuestionnaireAnswers list"  \<comment> \<open>the calls of \<open>startAnalysis\<close>, in order\<close>

definition initialOnboarding :: OnboardingState where
  "initialOnboarding =
     \<lparr>step = step_upload, selectedFile = None, currentQuestion = 0,
      answers = Map.empty, submitted = []\<rparr>"

definition handleSubmitAnalysis :: "OnboardingState \<Rightarrow> QuestionnaireAnswers \<Rightarrow> OnboardingState" where
  "handleSubmitAnalysis st finalAnswers =
     (case selectedFile st of
        None \<Rightarrow> st
      | Some file \<Rightarrow> st\<lparr>submitted := submitted st @ [finalAnswers]\<rparr>)"

text \<open>
  \<open>handleAnswer\<close> with its timeout callback, which runs before the next click. The
  callback reads \<open>currentQuestion\<close>, \<open>visibleQuestions\<close> and \<open>answers\<close> of the render
  the click happened in.
\<close>

definition handleAnswer :: "OnboardingState \<Rightarrow> QuestionId \<Rightarrow> string \<Rightarrow> OnboardingState" where
  "handleAnswer st questionId v =
     (let st1 = st\<lparr>answers := (answers st)(questionId \<mapsto> v)\<rparr> in
      if int (currentQuestion st) < int (length (visibleQuestions (answers st))) - 1
      then st1\<lparr>currentQuestion := currentQuestion st1 + 1\<rparr>
      else handleSubmitAnalysis st1 ((answers st)(questionId \<mapsto> v)))"

datatype Event = SelectFile string | Continue | ClickOption string | PreviousQuestion

text \<open>\<open>visibleQuestions[currentQuestion]\<close>: undefined out of range.\<close>

definition question :: "OnboardingState \<Rightarrow> Question option" where
  "question st =
     (if currentQuestion st < length (visibleQuestions (answers st))
      then Some (visibleQuestions (answers st) ! currentQuestion st)
      else None)"

text \<open>
  What the page lets the user do: select a file and continue on the upload step (the
  button is disabled without a file); on the questions step, click an option of the
  question shown, or go back when there is a previous question.
\<close>

definition onEvent :: "OnboardingState \<Rightarrow> Event \<Rightarrow> OnboardingState" where
  "onEvent st ev =
     (case ev of
        SelectFile file \<Rightarrow>
          if step st = step_upload then st\<lparr>selectedFile := Some file\<rparr> else st
      | Continue \<Rightarrow>
          if step st = step_upload \<and> selectedFile st \<noteq> None
          then st\<lparr>step := step_questions\<rparr> else st
      | ClickOption v \<Rightarrow>
          if step st = step_questions
          then (case question st of
                  None \<Rightarrow> st
                | Some q \<Rightarrow> if v \<in> set (options q) then handleAnswer st (id' q) v else st)
          else st
      | PreviousQuestion \<Rightarrow>
          if step st = step_questions \<and> currentQuestion st > 0
          then st\<lparr>currentQuestion := currentQuestion st - 1\<rparr> else st)"

definition runOnboarding :: "Event list \<Rightarrow> OnboardingState" where
  "runOnboarding evs = foldl onEvent initialOnboarding evs"

section \<open>The orchestrator's stage graph\<close>

text \<open>
  Modelled from the spec: the stages of the orchestrator's graph and the states a stage
  goes through; the backend that runs them is not among the sources.
\<close>

datatype Stage =
  UserContext | MergeWeather | ConsumptionInsight | Forecast | ForecastInsight
  | RiskDetector | PlanSynthesizer

datatype StageStatus = Pending | Running | Succeeded | Degraded | Failed

type_synonym RunState = "Stage \<Rightarrow> StageStatus"

text \<open>
  Modelled from the spec: the orchestrator (the backend's stage scheduler) is not among
  the sources. The dependencies are those of the control flow in the system overview
  and of the state machine: MergeWeather feeds ConsumptionInsight and Forecast,
  Forecast feeds ForecastInsight and RiskDetector, and the barrier of PlanSynthesizer
  waits on UserContext, ConsumptionInsight, ForecastInsight and RiskDetector.
\<close>

fun dependencies :: "Stage \<Rightarrow> Stage list" where
  "dependencies UserContext = []"
| "dependencies MergeWeather = []"
| "dependencies ConsumptionInsight = [MergeWeather]"
| "dependencies Forecast = [MergeWeather]"
| "dependencies ForecastInsight = [Forecast]"
| "dependencies RiskDetector = [Forecast]"
| "dependencies PlanSynthesizer = [UserContext, ConsumptionInsight, ForecastInsight, RiskDetector]"

text \<open>
  Modelled from the spec: a stage is complete for the barrier when it has finished,
  normally or in degraded mode; degraded is not failed.
\<close>

definition complete :: "StageStatus \<Rightarrow> bool" where
  "complete st = (st = Succeeded \<or> st = Degraded)"

text \<open>Modelled from the spec: the stages of one analysis run.\<close>

definition allStages :: "Stage list" where
  "allStages =
     [UserContext, MergeWeather, ConsumptionInsight, Forecast, ForecastInsight,
      RiskDetector, PlanSynthesizer]"

datatype SchedulerEvent = Start Stage | Finish Stage StageStatus

text \<open>
  Modelled from the spec: the scheduler executes a stage whose dependencies are
  satisfied; a running stage finishes as succeeded, degraded or failed; once a stage
  has failed the run is in its terminal failed state and nothing starts any more. An
  event the scheduler cannot take yields \<open>None\<close>. Concurrent stages are the
  interleavings of their start and finish events.
\<close>

definition schedule :: "RunState \<Rightarrow> SchedulerEvent \<Rightarrow> RunState option" where
  "schedule s ev =
     (case ev of
        Start x \<Rightarrow>
          if s x = Pending \<and> list_all (\<lambda>d. complete (s d)) (dependencies x)
             \<and> list_all (\<lambda>y. s y \<noteq> Failed) allStages
          then Some (s(x := Running)) else None
      | Finish x r \<Rightarrow>
          if s x = Running \<and> (r = Succeeded \<or> r = Degraded \<or> r = Failed)
          then Some (s(x := r)) else None)"

text \<open>
  Modelled from the spec: a run is a sequence of scheduler events taken one after the
  other, from the state in which every stage is pending.
\<close>

fun runSchedule :: "RunState \<Rightarrow> SchedulerEvent list \<Rightarrow> RunState option" where
  "runSchedule s [] = Some s"
| "runSchedule s (ev # evs) =
     (case schedule s ev of None \<Rightarrow> None | Some s' \<Rightarrow> runSchedule s' evs)"

definition initialRun :: RunState where
  "initialRun = (\<lambda>x. Pending)"

section \<open>Sample values\<close>

definition sampleIsoDateAfter :: "nat \<Rightarrow> string" where
  "sampleIsoDateAfter i = ''2026-03-0'' @ toStringNat (Suc i)"

definition samplePlanRecord :: PlanRecord where
  "samplePlanRecord =
     [(''Day 1'', [\<lparr>action = ''Raise the AC setpoint'', reason = ''Peak hours''\<rparr>]),
      (''Day 2'', []),
      (''Day 3'', [\<lparr>action = ''Run the washer at noon'', reason = ''Off-peak''\<rparr>,
                   \<lparr>action = ''Unplug chargers'', reason = ''Idle load''\<rparr>])]"

definition sampleResult :: "PlanRecord option \<Rightarrow> PlanRecord option \<Rightarrow> AnalysisResult" where
  "sampleResult sevenDay daily =
     \<lparr>analysis_id = ''a-1'', created_at = ''2026-03-01T00:00:00'',
      user_profile = mockUserProfile, consumption_insights = mockConsumptionInsights,
      risk_report = mockRiskReport, forecast_analysis = None,
      seven_day_energy_plan =
        \<lparr>SevenDayPlan.summary = ''Shift load off the evening peak'',
         estimated_savings_percent = 12, comfort_impact = ''low'',
         daily_plan = daily, seven_day_plan = sevenDay\<rparr>,
      forecast_data = []\<rparr>"

definition sampleForecastAnalysis :: ForecastAnalysis where
  "sampleForecastAnalysis =
     \<lparr>forecast_summary = ''Usage peaks at the weekend'',
      forecast_insights = [''Saturday is the highest day''],
      daily_breakdown =
        Some \<lparr>highest_day = Some ''Saturday'', lowest_day = Some ''Tuesday'',
              pattern_type = Some ''weekend-heavy''\<rparr>\<rparr>"

definition destructiveStyles :: SeverityStyles where
  "destructiveStyles =
     \<lparr>bg = ''bg-destructive/10'', text' = ''text-destructive'', border = ''border-destructive/30''\<rparr>"

definition warningStyles :: SeverityStyles where
  "warningStyles =
     \<lparr>bg = ''bg-warning/10'', text' = ''text-warning'', border = ''border-warning/30''\<rparr>"

definition insightStyles :: SeverityStyles where
  "insightStyles =
     \<lparr>bg = ''bg-insight/10'', text' = ''text-insight'', border = ''border-insight/30''\<rparr>"

text \<open>
  A stand-in for the platform's formatting: the month and day of an ISO date, and one
  decimal rounded to the nearest tenth (of a number that is not negative).
\<close>

definition sampleFormatting :: Formatting where
  "sampleFormatting =
     \<lparr>toLocaleDateString = (\<lambda>d. drop 5 d),
      toFixed1 = (\<lambda>x. toStringNat (nat \<lfloor>x * 10 + 1 / 2\<rfloor> div 10) @ ''.''
                        @ toStringNat (nat \<lfloor>x * 10 + 1 / 2\<rfloor> mod 10))\<rparr>"

definition sampleRiskReport :: RiskReport where
  "sampleRiskReport =
     \<lparr>total_risk_days = 2,
      risk_details =
        [\<lparr>RiskDay.date = ''2026-03-02'', total_usage_kw = 425 / 10,
          reasons = [''High temperature''], severity = ''Medium''\<rparr>,
         \<lparr>RiskDay.date = ''2026-03-07'', total_usage_kw = 6125 / 100,
          reasons = [''Weekend usage'', ''Usage spike pattern''], severity = ''HIGH''\<rparr>],
      RiskReport.summary = ''2 risk days''\<rparr>"

definition zeroSavingsPlan :: SevenDayPlan where
  "zeroSavingsPlan =
     \<lparr>SevenDayPlan.summary = ''No changes recommended'', estimated_savings_percent = 0,
      comfort_impact = ''low'', daily_plan = Some [], seven_day_plan = None\<rparr>"

text \<open>
  A stand-in for the platform's arithmetic: exact sums and exact rounding of the
  magnitude to hundredths (the larger one at a tie). On the sample values below,
  quarters and halves whose sums are quarters again, the doubles' operations are exact
  too, and give the same.
\<close>

definition sampleFloat64 :: Float64 where
  "sampleFloat64 =
     \<lparr>plus64 = (\<lambda>a b. case (a, b) of (Finite x, Finite y) \<Rightarrow> Finite (x + y) | _ \<Rightarrow> NaN),
      parseFloat_toFixed2 =
        (\<lambda>a. case a of
               Finite x \<Rightarrow>
                 if x < 0 then Finite (- (of_int \<lfloor>(- x) * 100 + 1 / 2\<rfloor> / 100))
                 else Finite (of_int \<lfloor>x * 100 + 1 / 2\<rfloor> / 100)
             | _ \<Rightarrow> a)\<rparr>"

definition sampleConsumption :: "ConsumptionData list" where
  "sampleConsumption =
     [\<lparr>ConsumptionData.date = ''2026-03-01'', hour = Some 0, kWh = Finite (5 / 4), isPeak = Some False\<rparr>,
      \<lparr>ConsumptionData.date = ''2026-03-02'', hour = Some 0, kWh = Finite (1 / 2), isPeak = Some False\<rparr>,
      \<lparr>ConsumptionData.date = ''2026-03-01'', hour = Some 1, kWh = Finite (5 / 2), isPeak = Some False\<rparr>]"

text \<open>A stand-in for the platform's date labels, read off an ISO timestamp.\<close>

definition sampleDateLabels :: DateLabels where
  "sampleDateLabels =
     \<lparr>monthDay = (\<lambda>d. take 5 (drop 5 d)), weekdayShort = (\<lambda>d. ''Mon''),
      monthDayHour = (\<lambda>d. take 8 (drop 5 d)), getHours = (\<lambda>d. 0)\<rparr>"

definition sampleForecast :: "ForecastDataPoint list" where
  "sampleForecast =
     [\<lparr>ForecastDataPoint.datetime = ''2026-03-01T00:00:00'', predicted_usage = Finite (5 / 4)\<rparr>,
      \<lparr>ForecastDataPoint.datetime = ''2026-03-02T00:00:00'', predicted_usage = Finite (1 / 2)\<rparr>,
      \<lparr>ForecastDataPoint.datetime = ''2026-03-01T01:00:00'', predicted_usage = Finite (5 / 2)\<rparr>]"

definition sampleDay :: "ConsumptionData list" where
  "sampleDay =
     [\<lparr>ConsumptionData.date = ''2026-03-01'', hour = Some 0, kWh = Finite 25, isPeak = Some False\<rparr>]"

definition changedMindRun :: "Event list" where
  "changedMindRun =
     [SelectFile ''meter.csv'', Continue,
      ClickOption ''3-4'', ClickOption ''Mostly empty'',
      ClickOption ''Yes'', ClickOption ''22-24'',
      PreviousQuestion, PreviousQuestion,
      ClickOption ''No'', ClickOption ''Solar'', ClickOption ''2-3'']"

definition directNoRun :: "Event list" where
  "directNoRun =
     [SelectFile ''meter.csv'', Continue,
      ClickOption ''3-4'', ClickOption ''Mostly empty'',
      ClickOption ''No'', ClickOption ''Solar'', ClickOption ''2-3'']"

definition degradedRiskRun :: "SchedulerEvent list" where
  "degradedRiskRun =
     [Start MergeWeather, Start UserContext, Finish MergeWeather Succeeded,
      Start Forecast, Start ConsumptionInsight, Finish UserContext Succeeded,
      Finish Forecast Succeeded, Start RiskDetector, Start ForecastInsight,
      Finish ConsumptionInsight Succeeded, Finish RiskDetector Degraded,
      Finish ForecastInsight Succeeded]"

section \<open>Properties of mapApiToPlan\<close>

lemma planEntries_pairs:
  "map (\<lambda>p. (dayLabel p, actions p)) (planEntries dateOf i m) = filter (\<lambda>(k, a). a \<noteq> []) m"
  by (induction m arbitrary: i) auto





section \<open>Properties of the dashboard and the risk report card\<close>

lemma lowerChar_idem: "lowerChar (lowerChar c) = lowerChar c"
  by (auto simp: lowerChar_def)

lemma toLowerCase_idem: "toLowerCase (toLowerCase s) = toLowerCase s"
  by (simp add: toLowerCase_def lowerChar_idem)

text \<open>
  C9. \<open>getSeverityStyles\<close> is defined on every string and looks at the lower-cased
  severity only: it returns the destructive styles exactly when the lower-cased
  severity is \<open>high\<close>, the warning styles exactly when it is \<open>medium\<close>, and the insight
  styles for every other string; lower-casing the argument first changes nothing.
\<close>

theorem C9_getSeverityStyles_total:
  "(getSeverityStyles sev = destructiveStyles \<longleftrightarrow> toLowerCase sev = ''high'')
   \<and> (getSeverityStyles sev = warningStyles \<longleftrightarrow> toLowerCase sev = ''medium'')
   \<and> (getSeverityStyles sev = insightStyles
        \<longleftrightarrow> toLowerCase sev \<noteq> ''high'' \<and> toLowerCase sev \<noteq> ''medium'')
   \<and> getSeverityStyles (toLowerCase sev) = getSeverityStyles sev"
  by (simp add: getSeverityStyles_def destructiveStyles_def warningStyles_def
        insightStyles_def toLowerCase_idem Let_def)

theorem C9_getSeverityStyles_total_witness:
  "getSeverityStyles ''HIGH'' = destructiveStyles
   \<and> getSeverityStyles ''High'' = destructiveStyles
   \<and> getSeverityStyles ''MeDiUm'' = warningStyles
   \<and> getSeverityStyles ''critical'' = insightStyles
   \<and> getSeverityStyles [] = insightStyles"
proof -
  have "toLowerCase ''HIGH'' = ''high''" "toLowerCase ''High'' = ''high''"
       "toLowerCase ''MeDiUm'' = ''medium''" "toLowerCase ''critical'' = ''critical''"
       "toLowerCase [] = []"
    by (simp_all add: toLowerCase_def lowerChar_def)
  then show ?thesis
    using C9_getSeverityStyles_total [of "''HIGH''"] C9_getSeverityStyles_total [of "''High''"]
      C9_getSeverityStyles_total [of "''MeDiUm''"] C9_getSeverityStyles_total [of "''critical''"]
      C9_getSeverityStyles_total [of "[]"]
    by simp
qed

text \<open>
  C3. A plan whose estimated savings are 0 percent, a value of the range from 0 to 100:
  the figure the dashboard shows for it is 10, the default, since \<open>0 || 10\<close> is 10.
\<close>

theorem C3_zero_savings_shown_as_ten:
  "estimated_savings_percent zeroSavingsPlan = 0 \<and> savingsPercent (Some zeroSavingsPlan) = 10"
  by (simp add: savingsPercent_def zeroSavingsPlan_def)

lemma savingsPercent_nonzero:
  "estimated_savings_percent p \<noteq> 0 \<Longrightarrow> savingsPercent (Some p) = estimated_savings_percent p"
  by (simp add: savingsPercent_def)




text \<open>
  C10. One send. When \<open>sendChatMessage\<close> rejects, the conversation history is what it
  was, and the chat messages gain the user's message (appended before the call, whatever
  its outcome) followed by exactly one assistant message, the error text. When it
  resolves, the conversation history gains exactly two entries: the user's message, then
  the assistant's reply.
\<close>

theorem C10_chat_state_after_send:
  "conversationHistory (handleSendMessage clk (Rejected e) message st) = conversationHistory st
   \<and> chatMessages (handleSendMessage clk (Rejected e) message st)
       = chatMessages st @
           [\<lparr>msg_id = toStringNat (idNow1 clk), ChatMessage.role = user,
             ChatMessage.content = message, timestamp = date1 clk\<rparr>,
            \<lparr>msg_id = toStringNat (idNow2 clk + 1), ChatMessage.role = assistant,
             ChatMessage.content =
               ''Sorry, I encountered an error: ''
               @ (case e of None \<Rightarrow> ''Unable to connect to AI service''
                  | Some m \<Rightarrow> if m = [] then ''Unable to connect to AI service'' else m)
               @ ''. Please try again.'',
             timestamp = date2 clk\<rparr>]
   \<and> conversationHistory (handleSendMessage clk (Resolved reply) message st)
       = conversationHistory st @
           [\<lparr>role = role_user, content = message\<rparr>,
            \<lparr>role = role_assistant, content = reply\<rparr>]"
  by (simp add: handleSendMessage_def Let_def)

lemma length_mapIndexed: "length (mapIndexed f i xs) = length xs"
  by (induction xs arbitrary: i) auto

lemma nth_mapIndexed: "j < length xs \<Longrightarrow> mapIndexed f i xs ! j = f (i + j) (xs ! j)"
proof (induction xs arbitrary: i j)
  case Nil
  then show ?case by simp
next
  case (Cons x xs)
  then show ?case by (cases j) auto
qed

lemma mapIndexed_map: "map g (mapIndexed f i xs) = mapIndexed (\<lambda>j x. g (f j x)) i xs"
  by (induction xs arbitrary: i) auto

lemma mapIndexed_const: "mapIndexed (\<lambda>j. h) i xs = map h xs"
  by (induction xs arbitrary: i) auto

text \<open>
  C2. For a risk report whose \<open>total_risk_days\<close> is the length of \<open>risk_details\<close>, the
  card renders the detail list exactly when \<open>total_risk_days\<close> is positive, the banner
  exactly when it is 0, never both; and the rendered details are those of
  \<open>risk_details\<close>, one per risk day and in its order: position by position the date
  label, the reasons, the usage label, the severity with its styles, and the key are
  those of the risk day at that position.
\<close>

theorem C2_details_or_banner:
  assumes "total_risk_days rr = int (length (risk_details rr))"
  shows "(details (RiskReportCard fmt rr) \<noteq> None \<longleftrightarrow> total_risk_days rr > 0)
         \<and> (noRiskBanner (RiskReportCard fmt rr) \<longleftrightarrow> total_risk_days rr = 0)
         \<and> \<not> (details (RiskReportCard fmt rr) \<noteq> None \<and> noRiskBanner (RiskReportCard fmt rr))
         \<and> (\<forall>ds. details (RiskReportCard fmt rr) = Some ds \<longrightarrow>
               length ds = length (risk_details rr)
               \<and> (\<forall>i < length ds. ds ! i = riskDayView fmt i (risk_details rr ! i))
               \<and> map dateLabel ds
                   = map (\<lambda>day. toLocaleDateString fmt (RiskDay.date day)) (risk_details rr)
               \<and> map reasonLines ds = map reasons (risk_details rr)
               \<and> map usageLabel ds
                   = map (\<lambda>day. toFixed1 fmt (total_usage_kw day)) (risk_details rr)
               \<and> map severityLabel ds = map severity (risk_details rr)
               \<and> map styles ds
                   = map (\<lambda>day. getSeverityStyles (severity day)) (risk_details rr)
               \<and> (\<forall>i < length ds.
                     key (ds ! i)
                     = (if RiskDay.date (risk_details rr ! i) = [] then Inr i
                        else Inl (RiskDay.date (risk_details rr ! i)))))"
  using assms
  by (auto simp: RiskReportCard_def length_mapIndexed nth_mapIndexed mapIndexed_map
        mapIndexed_const riskDayView_def)

theorem C2_details_or_banner_witness:
  "total_risk_days sampleRiskReport = int (length (risk_details sampleRiskReport))
   \<and> details (RiskReportCard sampleFormatting sampleRiskReport)
     = Some [\<lparr>key = Inl ''2026-03-02'', styles = warningStyles, dateLabel = ''03-02'',
              reasonLines = [''High temperature''], usageLabel = ''42.5'',
              severityLabel = ''Medium''\<rparr>,
             \<lparr>key = Inl ''2026-03-07'', styles = destructiveStyles, dateLabel = ''03-07'',
              reasonLines = [''Weekend usage'', ''Usage spike pattern''], usageLabel = ''61.3'',
              severityLabel = ''HIGH''\<rparr>]
   \<and> \<not> noRiskBanner (RiskReportCard sampleFormatting sampleRiskReport)
   \<and> noRiskBanner (RiskReportCard sampleFormatting mockRiskReport)
   \<and> details (RiskReportCard sampleFormatting mockRiskReport) = None"
proof -
  have h1: "total_risk_days sampleRiskReport = int (length (risk_details sampleRiskReport))"
    by (simp add: sampleRiskReport_def)
  have h2: "total_risk_days mockRiskReport = int (length (risk_details mockRiskReport))"
    by (simp add: mockRiskReport_def)
  have v1: "total_risk_days sampleRiskReport = 2" by (simp add: sampleRiskReport_def)
  have v2: "total_risk_days mockRiskReport = 0" by (simp add: mockRiskReport_def)
  have lower: "toLowerCase ''Medium'' = ''medium''" "toLowerCase ''HIGH'' = ''high''"
    by (simp_all add: toLowerCase_def lowerChar_def)
  have u: "toFixed1 sampleFormatting (425 / 10) = ''42.5''"
    "toFixed1 sampleFormatting (6125 / 100) = ''61.3''"
    by (simp_all add: sampleFormatting_def toStringNat.simps)
  have shown: "details (RiskReportCard sampleFormatting sampleRiskReport)
     = Some [\<lparr>key = Inl ''2026-03-02'', styles = warningStyles, dateLabel = ''03-02'',
              reasonLines = [''High temperature''], usageLabel = ''42.5'',
              severityLabel = ''Medium''\<rparr>,
             \<lparr>key = Inl ''2026-03-07'', styles = destructiveStyles, dateLabel = ''03-07'',
              reasonLines = [''Weekend usage'', ''Usage spike pattern''], usageLabel = ''61.3'',
              severityLabel = ''HIGH''\<rparr>]"
    using u
    by (simp add: RiskReportCard_def sampleRiskReport_def riskDayView_def getSeverityStyles_def
          lower warningStyles_def destructiveStyles_def)
       (simp add: sampleFormatting_def)
  from C2_details_or_banner [OF h1, of sampleFormatting] v1
  have nb: "\<not> noRiskBanner (RiskReportCard sampleFormatting sampleRiskReport)" by simp
  from C2_details_or_banner [OF h2, of sampleFormatting] v2
  have mb: "noRiskBanner (RiskReportCard sampleFormatting mockRiskReport)"
    and md: "details (RiskReportCard sampleFormatting mockRiskReport) = None"
    by simp_all
  from h1 shown nb mb md show ?thesis by blast
qed

section \<open>Properties of the daily aggregation\<close>

lemma keys_mapSet: "map fst (mapSet m k v) = addKey (map fst m) k"
  unfolding addKey_def by (induction m) force+

lemma set_foldl_addKey: "set (foldl addKey ks xs) = set ks \<union> set xs"
  by (induction xs arbitrary: ks) (auto simp: addKey_def)

lemma distinct_foldl_addKey: "distinct ks \<Longrightarrow> distinct (foldl addKey ks xs)"
  by (induction xs arbitrary: ks) (auto simp: addKey_def)

lemma firstOccurrences_keys:
  "distinct (firstOccurrences xs) \<and> set (firstOccurrences xs) = set xs"
  by (simp add: firstOccurrences_def set_foldl_addKey distinct_foldl_addKey)

lemma map_of_mapSet: "map_of (mapSet m k v) = (map_of m)(k \<mapsto> v)"
  by (induction m) auto

lemma keys_addConsumption:
  "map fst (addConsumption ops m item) = addKey (map fst m) (ConsumptionData.date item)"
  by (simp add: addConsumption_def keys_mapSet Let_def)

lemma keys_foldl_addConsumption:
  "map fst (foldl (addConsumption ops) m data)
   = foldl addKey (map fst m) (map ConsumptionData.date data)"
  by (induction data arbitrary: m) (simp_all add: keys_addConsumption)

lemma map_of_addConsumption:
  "map_of (addConsumption ops m item) d
     = (if d = ConsumptionData.date item
        then Some (plus64 ops
                     (case map_of m d of None \<Rightarrow> Finite 0
                      | Some c \<Rightarrow> if falsy c then Finite 0 else c)
                     (ConsumptionData.kWh item))
        else map_of m d)"
  by (simp add: addConsumption_def mapGet_def map_of_mapSet Let_def)

lemma map_of_foldl_addConsumption:
  "map_of (foldl (addConsumption ops) m data) d
     = (if map_of m d = None \<and> d \<notin> set (map ConsumptionData.date data) then None
        else Some (foldl (\<lambda>acc v. plus64 ops (if falsy acc then Finite 0 else acc) v)
                     (case map_of m d of None \<Rightarrow> Finite 0 | Some c \<Rightarrow> c)
                     (map ConsumptionData.kWh
                        (filter (\<lambda>i. ConsumptionData.date i = d) data))))"
proof (induction data arbitrary: m)
  case Nil
  then show ?case by (simp split: option.splits)
next
  case (Cons item data)
  show ?case
    unfolding foldl_Cons Cons.IH [of "addConsumption ops m item"]
    by (simp add: map_of_addConsumption falsy_def split: option.splits)
qed


lemma keys_addForecast:
  "map fst (addForecast ops lbl m item)
   = addKey (map fst m) (monthDay lbl (ForecastDataPoint.datetime item))"
  by (simp add: addForecast_def keys_mapSet Let_def split: option.splits)

lemma keys_foldl_addForecast:
  "map fst (foldl (addForecast ops lbl) m fd)
   = foldl addKey (map fst m) (map (\<lambda>p. monthDay lbl (ForecastDataPoint.datetime p)) fd)"
  by (induction fd arbitrary: m) (simp_all add: keys_addForecast)

lemma map_of_addForecast:
  "map_option DailyEntry.kWh (map_of (addForecast ops lbl m item) d)
     = (if d = monthDay lbl (ForecastDataPoint.datetime item)
        then Some (case map_option DailyEntry.kWh (map_of m d) of
                     None \<Rightarrow> predicted_usage item
                   | Some k \<Rightarrow> plus64 ops k (predicted_usage item))
        else map_option DailyEntry.kWh (map_of m d))"
  by (simp add: addForecast_def mapGet_def map_of_mapSet Let_def split: option.splits)

lemma map_of_foldl_addForecast:
  "map_option DailyEntry.kWh (map_of (foldl (addForecast ops lbl) m fd) d)
     = (case map_option DailyEntry.kWh (map_of m d) of
          Some k \<Rightarrow>
            Some (foldl (plus64 ops) k
                    (map predicted_usage
                       (filter (\<lambda>p. monthDay lbl (ForecastDataPoint.datetime p) = d) fd)))
        | None \<Rightarrow>
            (case map predicted_usage
                    (filter (\<lambda>p. monthDay lbl (ForecastDataPoint.datetime p) = d) fd) of
               [] \<Rightarrow> None
             | v # rest \<Rightarrow> Some (foldl (plus64 ops) v rest)))"
proof (induction fd arbitrary: m)
  case Nil
  then show ?case by (simp split: option.splits)
next
  case (Cons item fd)
  show ?case
    unfolding foldl_Cons Cons.IH [of "addForecast ops lbl m item"] map_of_addForecast
    by (simp split: option.splits)
qed

lemma getDailyConsumption_dates:
  "map ConsumptionData.date (getDailyConsumption ops data)
   = firstOccurrences (map ConsumptionData.date data)"
proof -
  have "map ConsumptionData.date (getDailyConsumption ops data)
        = map fst (foldl (addConsumption ops) [] data)"
    by (simp add: getDailyConsumption_def case_prod_unfold comp_def)
  then show ?thesis by (simp add: keys_foldl_addConsumption firstOccurrences_def)
qed

lemma getDailyConsumption_day_total:
  assumes "c \<in> set (getDailyConsumption ops data)"
  shows "ConsumptionData.kWh c
         = parseFloat_toFixed2 ops (runningSum ops (map ConsumptionData.kWh
             (filter (\<lambda>i. ConsumptionData.date i = ConsumptionData.date c) data)))"
proof -
  from assms obtain d k where e: "(d, k) \<in> set (foldl (addConsumption ops) [] data)"
    and c: "c = \<lparr>ConsumptionData.date = d, hour = None,
                  kWh = parseFloat_toFixed2 ops k, isPeak = None\<rparr>"
    by (auto simp: getDailyConsumption_def)
  have "distinct (map fst (foldl (addConsumption ops) [] data))"
    by (simp add: keys_foldl_addConsumption distinct_foldl_addKey)
  with e have "map_of (foldl (addConsumption ops) [] data) d = Some k" by simp
  then have "k = runningSum ops (map ConsumptionData.kWh
      (filter (\<lambda>i. ConsumptionData.date i = d) data))"
    unfolding map_of_foldl_addConsumption runningSum_def by (simp split: if_splits)
  with c show ?thesis by simp
qed

lemma dailyData_grouped:
  assumes "fd \<noteq> []"
  shows "dailyData ops lbl (Some fd) hourly
         = map (\<lambda>e. \<lparr>index = None, ChartPoint.date = fst e,
                       dayName = weekdayShort lbl (DailyEntry.datetime (snd e)),
                       fullDate = None,
                       ChartPoint.kWh = parseFloat_toFixed2 ops (DailyEntry.kWh (snd e)),
                       ChartPoint.datetime = None, isMidnight = None\<rparr>)
             (foldl (addForecast ops lbl) [] fd)"
  using assms by (simp add: dailyData_def case_prod_unfold)

lemma dailyData_dates:
  assumes "fd \<noteq> []"
  shows "map ChartPoint.date (dailyData ops lbl (Some fd) hourly)
         = firstOccurrences (map (\<lambda>p. monthDay lbl (ForecastDataPoint.datetime p)) fd)"
proof -
  have "map ChartPoint.date (dailyData ops lbl (Some fd) hourly)
        = map fst (foldl (addForecast ops lbl) [] fd)"
    unfolding dailyData_grouped [OF assms] by (simp add: comp_def)
  then show ?thesis by (simp add: keys_foldl_addForecast firstOccurrences_def)
qed

lemma dailyData_day_total:
  assumes "fd \<noteq> []" and "c \<in> set (dailyData ops lbl (Some fd) hourly)"
  shows "ChartPoint.kWh c
         = parseFloat_toFixed2 ops (seriesSum ops (map predicted_usage
             (filter (\<lambda>p. monthDay lbl (ForecastDataPoint.datetime p) = ChartPoint.date c) fd)))"
proof -
  from assms(2) obtain d e where e: "(d, e) \<in> set (foldl (addForecast ops lbl) [] fd)"
    and c: "ChartPoint.date c = d"
      "ChartPoint.kWh c = parseFloat_toFixed2 ops (DailyEntry.kWh e)"
    unfolding dailyData_grouped [OF assms(1)] by auto
  have "distinct (map fst (foldl (addForecast ops lbl) [] fd))"
    by (simp add: keys_foldl_addForecast distinct_foldl_addKey)
  with e have "map_option DailyEntry.kWh (map_of (foldl (addForecast ops lbl) [] fd) d)
      = Some (DailyEntry.kWh e)"
    by simp
  then have "(case map predicted_usage
                    (filter (\<lambda>p. monthDay lbl (ForecastDataPoint.datetime p) = d) fd) of
                [] \<Rightarrow> None
              | v # rest \<Rightarrow> Some (foldl (plus64 ops) v rest)) = Some (DailyEntry.kWh e)"
    unfolding map_of_foldl_addForecast by simp
  then have "DailyEntry.kWh e
      = seriesSum ops (map predicted_usage
          (filter (\<lambda>p. monthDay lbl (ForecastDataPoint.datetime p) = d) fd))"
    unfolding seriesSum_def
    by (cases "map predicted_usage
                 (filter (\<lambda>p. monthDay lbl (ForecastDataPoint.datetime p) = d) fd)")
       simp_all
  with c show ?thesis by simp
qed




lemma sample_daily_consumption:
  "map (\<lambda>c. (ConsumptionData.date c, ConsumptionData.kWh c))
     (getDailyConsumption sampleFloat64 sampleConsumption)
   = [(''2026-03-01'', Finite (15 / 4)), (''2026-03-02'', Finite (1 / 2))]"
  by (simp add: getDailyConsumption_def sampleConsumption_def addConsumption_def mapGet_def
        sampleFloat64_def falsy_def)

lemma sample_daily_forecast:
  "map (\<lambda>c. (ChartPoint.date c, dayName c, ChartPoint.kWh c))
     (dailyData sampleFloat64 sampleDateLabels (Some sampleForecast) [])
   = [(''03-01'', ''Mon'', Finite (15 / 4)), (''03-02'', ''Mon'', Finite (1 / 2))]"
  by (simp add: dailyData_def sampleForecast_def sampleDateLabels_def addForecast_def mapGet_def
        sampleFloat64_def)


section \<open>Properties of the questionnaire\<close>

lemma visibleQuestions_q3_1:
  "q3_1 \<in> set (map id' (visibleQuestions a)) \<longleftrightarrow> a q3 = Some ''Yes''"
  by (simp add: visibleQuestions_def questions_def)

lemma visibleQuestions_No:
  "a q3 = Some ''No'' \<Longrightarrow> map id' (visibleQuestions a) = [q1, q2, q3, q4, q5]"
  by (simp add: visibleQuestions_def questions_def)

lemma directNoRun_submits_without_setpoint:
  "map (\<lambda>a. map a [q1, q2, q3, q3_1, q4, q5]) (submitted (runOnboarding directNoRun))
   = [[Some ''3-4'', Some ''Mostly empty'', Some ''No'', None, Some ''Solar'', Some ''2-3'']]"
  by code_simp

text \<open>
  C6. A run of the questionnaire in which the user answers \<open>Yes\<close> to \<open>q3\<close>, picks the
  setpoint \<open>22-24\<close>, goes back twice and changes \<open>q3\<close> to \<open>No\<close>: the answers submitted hold
  \<open>q3 = No\<close> and still the key \<open>q3_1\<close>, since changing an answer leaves the others in
  place. (In every state \<open>q3_1\<close> is among the visible questions exactly when \<open>q3\<close> is
  \<open>Yes\<close>, and a run that answers \<open>No\<close> at once submits no \<open>q3_1\<close>: the lemmas above.)
\<close>

theorem C6_stale_setpoint_submitted:
  "map (\<lambda>a. map a [q1, q2, q3, q3_1, q4, q5]) (submitted (runOnboarding changedMindRun))
   = [[Some ''3-4'', Some ''Mostly empty'', Some ''No'', Some ''22-24'', Some ''Solar'',
       Some ''2-3'']]"
  by code_simp

section \<open>Properties of the stage scheduler\<close>

lemma runSchedule_append:
  "runSchedule s (pre @ post)
   = (case runSchedule s pre of None \<Rightarrow> None | Some s' \<Rightarrow> runSchedule s' post)"
  by (induction pre arbitrary: s) (auto split: option.splits)

lemma barrier_step:
  assumes inv: "s PlanSynthesizer \<noteq> Pending \<longrightarrow>
                  list_all (\<lambda>d. complete (s d)) (dependencies PlanSynthesizer)"
      and st: "schedule s ev = Some s'"
  shows "s' PlanSynthesizer \<noteq> Pending \<longrightarrow>
           list_all (\<lambda>d. complete (s' d)) (dependencies PlanSynthesizer)"
proof (cases ev)
  case (Start x)
  with st have x: "s x = Pending" and deps: "list_all (\<lambda>d. complete (s d)) (dependencies x)"
    and s': "s' = s(x := Running)"
    by (auto simp: schedule_def split: if_splits)
  show ?thesis
  proof (cases "x = PlanSynthesizer")
    case True
    with deps s' show ?thesis by simp
  next
    case False
    with inv x s' show ?thesis by (auto simp: complete_def)
  qed
next
  case (Finish x r)
  with st have x: "s x = Running" and s': "s' = s(x := r)"
    by (auto simp: schedule_def split: if_splits)
  show ?thesis
  proof (cases "x = PlanSynthesizer")
    case True
    with inv x s' show ?thesis by simp
  next
    case False
    with inv x s' show ?thesis by (auto simp: complete_def)
  qed
qed

lemma barrier_run:
  assumes "s PlanSynthesizer \<noteq> Pending \<longrightarrow>
             list_all (\<lambda>d. complete (s d)) (dependencies PlanSynthesizer)"
      and "runSchedule s evs = Some s'"
  shows "s' PlanSynthesizer \<noteq> Pending \<longrightarrow>
           list_all (\<lambda>d. complete (s' d)) (dependencies PlanSynthesizer)"
  using assms
proof (induction evs arbitrary: s)
  case Nil
  then show ?case by simp
next
  case (Cons ev evs)
  from Cons.prems(2) obtain s1 where s1: "schedule s ev = Some s1"
    and rest: "runSchedule s1 evs = Some s'"
    by (auto split: option.splits)
  from barrier_step [OF Cons.prems(1) s1] rest show ?case by (rule Cons.IH)
qed

text \<open>
  C7. In every run of the stage scheduler: a state in which PlanSynthesizer has left
  \<open>Pending\<close> has UserContext, ConsumptionInsight, ForecastInsight and RiskDetector all
  complete (succeeded or degraded); the event that starts PlanSynthesizer is taken
  only in such a state; and when the four are complete, whichever of them are
  degraded, and no stage has failed, PlanSynthesizer does start.
\<close>

theorem C7_barrier_before_plan_synthesizer:
  "(runSchedule initialRun evs = Some s \<longrightarrow> s PlanSynthesizer \<noteq> Pending \<longrightarrow>
      complete (s UserContext) \<and> complete (s ConsumptionInsight)
      \<and> complete (s ForecastInsight) \<and> complete (s RiskDetector))
   \<and> (runSchedule initialRun (pre @ Start PlanSynthesizer # post) \<noteq> None \<longrightarrow>
        (\<exists>s0. runSchedule initialRun pre = Some s0 \<and> s0 PlanSynthesizer = Pending
           \<and> complete (s0 UserContext) \<and> complete (s0 ConsumptionInsight)
           \<and> complete (s0 ForecastInsight) \<and> complete (s0 RiskDetector)))
   \<and> (runSchedule initialRun evs = Some s \<longrightarrow> s PlanSynthesizer = Pending \<longrightarrow>
        complete (s UserContext) \<longrightarrow> complete (s ConsumptionInsight) \<longrightarrow>
        complete (s ForecastInsight) \<longrightarrow> complete (s RiskDetector) \<longrightarrow>
        list_all (\<lambda>y. s y \<noteq> Failed) allStages \<longrightarrow>
        runSchedule initialRun (evs @ [Start PlanSynthesizer])
          = Some (s(PlanSynthesizer := Running)))"
proof (intro conjI impI)
  assume run: "runSchedule initialRun evs = Some s" and started: "s PlanSynthesizer \<noteq> Pending"
  have "initialRun PlanSynthesizer \<noteq> Pending \<longrightarrow>
          list_all (\<lambda>d. complete (initialRun d)) (dependencies PlanSynthesizer)"
    by (simp add: initialRun_def)
  from barrier_run [OF this run] started
  show "complete (s UserContext)" "complete (s ConsumptionInsight)"
    "complete (s ForecastInsight)" "complete (s RiskDetector)"
    by simp_all
next
  assume "runSchedule initialRun (pre @ Start PlanSynthesizer # post) \<noteq> None"
  then obtain s0 s1 where s0: "runSchedule initialRun pre = Some s0"
    and s1: "schedule s0 (Start PlanSynthesizer) = Some s1"
    by (auto simp: runSchedule_append split: option.splits)
  from s1 have "s0 PlanSynthesizer = Pending \<and> complete (s0 UserContext)
      \<and> complete (s0 ConsumptionInsight) \<and> complete (s0 ForecastInsight)
      \<and> complete (s0 RiskDetector)"
    by (simp add: schedule_def split: if_splits)
  with s0 show "\<exists>s0. runSchedule initialRun pre = Some s0 \<and> s0 PlanSynthesizer = Pending
           \<and> complete (s0 UserContext) \<and> complete (s0 ConsumptionInsight)
           \<and> complete (s0 ForecastInsight) \<and> complete (s0 RiskDetector)"
    by blast
next
  assume "runSchedule initialRun evs = Some s" "s PlanSynthesizer = Pending"
    "complete (s UserContext)" "complete (s ConsumptionInsight)"
    "complete (s ForecastInsight)" "complete (s RiskDetector)"
    "list_all (\<lambda>y. s y \<noteq> Failed) allStages"
  then show "runSchedule initialRun (evs @ [Start PlanSynthesizer])
          = Some (s(PlanSynthesizer := Running))"
    by (simp add: runSchedule_append schedule_def)
qed

lemma degradedRiskRun_state:
  "map_option (\<lambda>s. map s allStages) (runSchedule initialRun degradedRiskRun)
   = Some [Succeeded, Succeeded, Succeeded, Succeeded, Succeeded, Degraded, Pending]"
  by code_simp

theorem C7_barrier_before_plan_synthesizer_witness:
  "map_option (\<lambda>s. map s allStages)
     (runSchedule initialRun (degradedRiskRun @ [Start PlanSynthesizer]))
   = Some [Succeeded, Succeeded, Succeeded, Succeeded, Succeeded, Degraded, Running]
   \<and> runSchedule initialRun [Start MergeWeather, Start PlanSynthesizer] = None"
proof -
  from degradedRiskRun_state obtain s where run: "runSchedule initialRun degradedRiskRun = Some s"
    and st: "map s allStages = [Succeeded, Succeeded, Succeeded, Succeeded, Succeeded, Degraded, Pending]"
    by (cases "runSchedule initialRun degradedRiskRun") simp_all
  from st have vals: "s UserContext = Succeeded" "s MergeWeather = Succeeded"
    "s ConsumptionInsight = Succeeded" "s Forecast = Succeeded" "s ForecastInsight = Succeeded"
    "s RiskDetector = Degraded" "s PlanSynthesizer = Pending"
    by (simp_all add: allStages_def)
  have "runSchedule initialRun (degradedRiskRun @ [Start PlanSynthesizer])
        = Some (s(PlanSynthesizer := Running))"
    using C7_barrier_before_plan_synthesizer [of degradedRiskRun s] run vals
    by (simp add: complete_def allStages_def)
  moreover have "runSchedule initialRun [Start MergeWeather, Start PlanSynthesizer] = None"
    by code_simp
  ultimately show ?thesis using vals by (simp add: allStages_def)
qed

end
